theory Spec2Isabelle
  imports Complex_Main "HOL-Library.Monad_Syntax"
begin

section \<open>Numbers\<close>

text \<open>
  The program is JavaScript; every quantity it computes with is a Number. The embedding
  reads a finite Number as the real number it denotes, \<open>Math.cos\<close>, \<open>Math.sin\<close> and
  \<open>Math.sqrt\<close> as the real functions, and the arithmetic as exact: rounding and overflow
  of the double format are outside the model. What is inside the model is every place
  where a finite input can produce a non-finite Number (\<open>Infinity\<close> or \<open>NaN\<close>): a division
  whose divisor is zero and a square root of a negative number. Those two operations
  return \<open>None\<close> there, so that a computation that reaches one of them is a computation
  whose result is \<open>None\<close>, and "the result is a finite point" is a statement to prove.
\<close>

definition num_div :: "real \<Rightarrow> real \<Rightarrow> real option" where
  \<comment> \<open>\<open>a / b\<close>: \<open>Infinity\<close>, \<open>-Infinity\<close> or \<open>NaN\<close> when \<open>b\<close> is zero.\<close>
  "num_div a b = (if b = 0 then None else Some (a / b))"

definition Math_sqrt :: "real \<Rightarrow> real option" where
  \<comment> \<open>\<open>Math.sqrt(a)\<close>: \<open>NaN\<close> when \<open>a\<close> is negative.\<close>
  "Math_sqrt a = (if a < 0 then None else Some (sqrt a))"

text \<open>
  \<open>"1 : " + Zc\<close> concatenates a string with the decimal form of an integral Number: the
  digits, after a minus sign when the number is negative.
\<close>

definition digit_char :: "nat \<Rightarrow> char" where
  "digit_char d = ''0123456789'' ! d"

fun digits :: "nat \<Rightarrow> string" where
  "digits n = (if n < 10 then [digit_char n] else digits (n div 10) @ [digit_char (n mod 10)])"

declare digits.simps [simp del]

definition Number_toString :: "int \<Rightarrow> string" where
  "Number_toString i = (if i < 0 then CHR ''-'' # digits (nat (- i)) else digits (nat i))"

section \<open>State variables\<close>

text \<open>
  \<open>params\<close> is the object \<open>{R, Zp, rp, e}\<close>; \<open>Zp\<close> comes from \<open>parseInt\<close> and is an integer,
  the other three come from \<open>parseFloat\<close>. \<open>kinematics\<close> is the string \<open>'STD'\<close> (fixed pins)
  or \<open>'RV'\<close> (fixed cycloid): the program compares it with \<open>'STD'\<close> only and takes the
  other branch otherwise. \<open>rotationAngle\<close> is the angle of the input shaft. The viewport
  state, the canvas and the event listeners take no part in the computations below and
  are left out.
\<close>

datatype mode = STD | RV

record gear_params =
  par_R :: real
  par_Zp :: int
  par_rp :: real
  par_e :: real

record state =
  params :: gear_params
  kinematics :: mode
  rotationAngle :: real

definition initial_state :: state where
  \<comment> \<open>The initial values of the three state variables.\<close>
  "initial_state =
     \<lparr>params = \<lparr>par_R = 80, par_Zp = 12, par_rp = 5, par_e = 4\<rparr>,
      kinematics = STD, rotationAngle = 0\<rparr>"

section \<open>Input handling\<close>

text \<open>
  \<open>updateParams\<close> reads the four input fields into \<open>params\<close> and writes the displays. Its
  argument \<open>inp\<close> is what \<open>parseFloat\<close> and \<open>parseInt\<close> made of the fields. Of the displays
  the model keeps the ratio text, the direction label (its ASCII part is \<open>(Opposite)\<close> or
  \<open>(Same)\<close>), the number \<open>K1\<close> that the \<open>k1\<close> display formats with \<open>toFixed(3)\<close>, and whether
  the undercut warning is shown (\<open>display = 'block'\<close>) or hidden (\<open>'none'\<close>).
\<close>

datatype direction = Opposite | Same

record displays =
  ratio :: string
  dir :: direction
  k1 :: real
  warn :: bool

definition updateParams :: "gear_params \<Rightarrow> state \<Rightarrow> (displays \<times> state) option" where
  "updateParams inp s =
     (let s' = s\<lparr>params := inp\<rparr>;
          R = par_R (params s'); Zp = par_Zp (params s');
          rp = par_rp (params s'); e = par_e (params s');
          Zc = Zp - 1
      in do {
        K1 \<leftarrow> num_div (e * real_of_int Zp) R;
        pitch \<leftarrow> num_div R (real_of_int Zp);
        Some (\<lparr>ratio = (if kinematics s' = STD then ''1 : '' @ Number_toString Zc
                          else ''1 : '' @ Number_toString Zp),
               dir = (if kinematics s' = STD then Opposite else Same),
               k1 = K1,
               warn = (rp > pitch * 1.1 \<or> K1 > 0.98)\<rparr>, s')
      })"

definition setMode :: "mode \<Rightarrow> gear_params \<Rightarrow> state \<Rightarrow> (displays \<times> state) option" where
  \<comment> \<open>\<open>setMode(mode)\<close> stores the mode and calls \<open>updateParams\<close>.\<close>
  "setMode m inp s = updateParams inp (s\<lparr>kinematics := m\<rparr>)"

section \<open>The mathematical core\<close>

record point =
  xcoord :: real
  ycoord :: real

definition epsilon :: real where
  \<comment> \<open>The literal \<open>1e-6\<close> of \<open>getCycloidPoint\<close>.\<close>
  "epsilon = 1 / 1000000"

definition getCycloidPoint :: "real \<Rightarrow> real \<Rightarrow> real \<Rightarrow> real \<Rightarrow> real \<Rightarrow> point option" where
  \<comment> \<open>\<open>getCycloidPoint(theta, R, Zp, rp, e)\<close>, returning the object \<open>{x, y}\<close>.\<close>
  "getCycloidPoint theta R Zp rp e =
     (let x0 = R * cos theta - e * cos (Zp * theta);
          y0 = R * sin theta - e * sin (Zp * theta);
          dxdt = - R * sin theta + e * Zp * sin (Zp * theta);
          dydt = R * cos theta - e * Zp * cos (Zp * theta)
      in do {
        len \<leftarrow> Math_sqrt (dxdt * dxdt + dydt * dydt);
        if len < epsilon then Some \<lparr>xcoord = x0, ycoord = y0\<rparr>
        else do {
          nx \<leftarrow> num_div (- dydt) len;
          ny \<leftarrow> num_div dxdt len;
          Some \<lparr>xcoord = x0 + rp * nx, ycoord = y0 + rp * ny\<rparr>
        }
      })"

section \<open>The kinematics logic of the drawing loop\<close>

text \<open>
  \<open>draw\<close> destructures \<open>params\<close>, computes \<open>Zc\<close> and then the three quantities that place the
  pin group and the disc, by a branch on \<open>kinematics\<close>; the canvas calls that follow only
  consume them (\<open>ctx.rotate(pinGroupAngle)\<close>, \<open>ctx.translate(discCenter.x, discCenter.y)\<close>,
  \<open>ctx.rotate(discRotation)\<close>). \<open>draw_placement\<close> is that block of \<open>draw\<close>.
\<close>

record placement =
  pinGroupAngle :: real
  discCenter :: point
  discRotation :: real

definition draw_placement :: "state \<Rightarrow> placement option" where
  "draw_placement s =
     (let R = par_R (params s); Zp = real_of_int (par_Zp (params s));
          rp = par_rp (params s); e = par_e (params s);
          Zc = Zp - 1
      in if kinematics s = STD then do {
           r \<leftarrow> num_div (- rotationAngle s) Zc;
           Some \<lparr>pinGroupAngle = 0,
                 discCenter = \<lparr>xcoord = e * cos (rotationAngle s),
                                ycoord = e * sin (rotationAngle s)\<rparr>,
                 discRotation = r\<rparr>
         } else do {
           a \<leftarrow> num_div (rotationAngle s) Zp;
           Some \<lparr>pinGroupAngle = a,
                 discCenter = \<lparr>xcoord = e * cos (rotationAngle s),
                                ycoord = e * sin (rotationAngle s)\<rparr>,
                 discRotation = 0\<rparr>
         })"

section \<open>The curve of the specification\<close>

text \<open>
  The base epitrochoid, its tangent, the tangent's length and the unit normal, as section
  4.1 of the specification writes them. The theorems about the profile compare
  \<open>getCycloidPoint\<close> with them.
\<close>

definition base_point :: "real \<Rightarrow> real \<Rightarrow> real \<Rightarrow> real \<Rightarrow> point" where
  "base_point theta R Zp e =
     \<lparr>xcoord = R * cos theta - e * cos (Zp * theta),
      ycoord = R * sin theta - e * sin (Zp * theta)\<rparr>"

definition tangent :: "real \<Rightarrow> real \<Rightarrow> real \<Rightarrow> real \<Rightarrow> point" where
  "tangent theta R Zp e =
     \<lparr>xcoord = - R * sin theta + e * Zp * sin (Zp * theta),
      ycoord = R * cos theta - e * Zp * cos (Zp * theta)\<rparr>"

definition norm_point :: "point \<Rightarrow> real" where
  "norm_point p = sqrt ((xcoord p)\<^sup>2 + (ycoord p)\<^sup>2)"

definition dot :: "point \<Rightarrow> point \<Rightarrow> real" where
  "dot p q = xcoord p * xcoord q + ycoord p * ycoord q"

definition tangent_length :: "real \<Rightarrow> real \<Rightarrow> real \<Rightarrow> real \<Rightarrow> real" where
  "tangent_length theta R Zp e = norm_point (tangent theta R Zp e)"

definition unit_normal :: "real \<Rightarrow> real \<Rightarrow> real \<Rightarrow> real \<Rightarrow> point" where
  "unit_normal theta R Zp e =
     \<lparr>xcoord = - ycoord (tangent theta R Zp e) / tangent_length theta R Zp e,
      ycoord = xcoord (tangent theta R Zp e) / tangent_length theta R Zp e\<rparr>"

section \<open>Properties of the profile generator\<close>

lemma Math_sqrt_squares: "Math_sqrt (a * a + b * b) = Some (sqrt (a\<^sup>2 + b\<^sup>2))"
  by (simp add: Math_sqrt_def power2_eq_square not_less)

text \<open>
  The two branches of \<open>getCycloidPoint\<close> in terms of the curve of the specification. The
  square root is taken of a sum of two squares and the divisions are reached only with a
  length of at least \<open>epsilon\<close>, so neither operation leaves the finite numbers.
\<close>

lemma getCycloidPoint_cases:
  "getCycloidPoint theta R Zp rp e =
     (if tangent_length theta R Zp e < epsilon then Some (base_point theta R Zp e)
      else Some \<lparr>xcoord = xcoord (base_point theta R Zp e)
                    + rp * (- ycoord (tangent theta R Zp e) / tangent_length theta R Zp e),
                 ycoord = ycoord (base_point theta R Zp e)
                    + rp * (xcoord (tangent theta R Zp e) / tangent_length theta R Zp e)\<rparr>)"
proof -
  have pos: "0 < epsilon" by (simp add: epsilon_def)
  show ?thesis
    unfolding getCycloidPoint_def Let_def Math_sqrt_squares
    using pos
    by (auto simp: tangent_length_def norm_point_def tangent_def base_point_def num_div_def)
qed

lemma unit_normal_norm:
  assumes "0 < tangent_length theta R Zp e"
  shows "norm_point (unit_normal theta R Zp e) = 1"
proof -
  let ?t = "tangent theta R Zp e"
  let ?L = "tangent_length theta R Zp e"
  have L2: "?L\<^sup>2 = (xcoord ?t)\<^sup>2 + (ycoord ?t)\<^sup>2"
    by (simp add: tangent_length_def norm_point_def)
  have "(- ycoord ?t / ?L)\<^sup>2 + (xcoord ?t / ?L)\<^sup>2
          = ((xcoord ?t)\<^sup>2 + (ycoord ?t)\<^sup>2) / ?L\<^sup>2"
    by (simp add: power_divide add_divide_distrib)
  also have "\<dots> = ?L\<^sup>2 / ?L\<^sup>2" by (simp only: L2)
  also have "\<dots> = 1" using assms by simp
  finally show ?thesis
    by (simp add: norm_point_def unit_normal_def)
qed

lemma unit_normal_orthogonal: "dot (unit_normal theta R Zp e) (tangent theta R Zp e) = 0"
  by (simp add: dot_def unit_normal_def)

text \<open>
  The side of the curve to which the normal \<open>(- dy, dx) / L\<close> points is read off its inner
  product with the position vector: negative means the side on which the origin lies,
  the interior of a curve that winds around the origin. With \<open>phi = Zp * theta - theta\<close>,
  the inner product times \<open>L\<close> is \<open>- ((R - e) * (R - e * Zp) + e * R * (Zp + 1) * (1 - cos phi))\<close>
  and \<open>L\<^sup>2\<close> is \<open>(R - e * Zp)\<^sup>2 + 2 * e * R * Zp * (1 - cos phi)\<close>.
\<close>

lemma normal_numerator:
  "- ycoord (tangent theta R Zp e) * xcoord (base_point theta R Zp e)
     + xcoord (tangent theta R Zp e) * ycoord (base_point theta R Zp e)
   = - (R\<^sup>2 + e\<^sup>2 * Zp - e * R * (Zp + 1) * cos (Zp * theta - theta))"
proof -
  define c s C S where defs: "c = cos theta" "s = sin theta"
    "C = cos (Zp * theta)" "S = sin (Zp * theta)"
  have one: "c\<^sup>2 + s\<^sup>2 = 1" "C\<^sup>2 + S\<^sup>2 = 1"
    by (simp_all add: defs)
  have "- (R * c - e * Zp * C) * (R * c - e * C) + (- R * s + e * Zp * S) * (R * s - e * S)
        = - (R\<^sup>2 * (c\<^sup>2 + s\<^sup>2) + e\<^sup>2 * Zp * (C\<^sup>2 + S\<^sup>2)
             - e * R * (Zp + 1) * (C * c + S * s))"
    by (simp add: algebra_simps power2_eq_square)
  also have "\<dots> = - (R\<^sup>2 + e\<^sup>2 * Zp - e * R * (Zp + 1) * (C * c + S * s))"
    by (simp only: one mult_1_right)
  finally show ?thesis
    by (simp add: tangent_def base_point_def cos_diff defs)
qed

lemma normal_numerator_factored:
  "- ycoord (tangent theta R Zp e) * xcoord (base_point theta R Zp e)
     + xcoord (tangent theta R Zp e) * ycoord (base_point theta R Zp e)
   = - ((R - e) * (R - e * Zp) + e * R * (Zp + 1) * (1 - cos (Zp * theta - theta)))"
  unfolding normal_numerator by (simp add: algebra_simps power2_eq_square)

lemma tangent_length_sq:
  "(tangent_length theta R Zp e)\<^sup>2
     = (R - e * Zp)\<^sup>2 + 2 * (e * R * Zp) * (1 - cos (Zp * theta - theta))"
proof -
  define c s C S where defs: "c = cos theta" "s = sin theta"
    "C = cos (Zp * theta)" "S = sin (Zp * theta)"
  have one: "c\<^sup>2 + s\<^sup>2 = 1" "C\<^sup>2 + S\<^sup>2 = 1"
    by (simp_all add: defs)
  have "(- R * s + e * Zp * S)\<^sup>2 + (R * c - e * Zp * C)\<^sup>2
        = R\<^sup>2 * (c\<^sup>2 + s\<^sup>2) + (e * Zp)\<^sup>2 * (C\<^sup>2 + S\<^sup>2)
          - 2 * (e * R * Zp) * (C * c + S * s)"
    by (simp add: algebra_simps power2_eq_square)
  also have "\<dots> = R\<^sup>2 + (e * Zp)\<^sup>2 - 2 * (e * R * Zp) * (C * c + S * s)"
    by (simp only: one mult_1_right)
  also have "\<dots> = (R - e * Zp)\<^sup>2 + 2 * (e * R * Zp) * (1 - (C * c + S * s))"
    by (simp add: algebra_simps power2_eq_square)
  finally have E: "(- R * s + e * Zp * S)\<^sup>2 + (R * c - e * Zp * C)\<^sup>2
        = (R - e * Zp)\<^sup>2 + 2 * (e * R * Zp) * (1 - (C * c + S * s))" .
  have sq: "(tangent_length theta R Zp e)\<^sup>2
      = (xcoord (tangent theta R Zp e))\<^sup>2 + (ycoord (tangent theta R Zp e))\<^sup>2"
    by (simp add: tangent_length_def norm_point_def)
  show ?thesis
    unfolding sq using E by (simp add: tangent_def cos_diff defs)
qed

lemma unit_normal_dot:
  "dot (unit_normal theta R Zp e) (base_point theta R Zp e)
     = (- ycoord (tangent theta R Zp e) * xcoord (base_point theta R Zp e)
        + xcoord (tangent theta R Zp e) * ycoord (base_point theta R Zp e))
       / tangent_length theta R Zp e"
  by (simp add: dot_def unit_normal_def add_divide_distrib diff_divide_distrib)

text \<open>
  Without loops (\<open>e * Zp \<le> R\<close>; at equality the curve has cusps, where the tangent
  vanishes) and also for \<open>R < e\<close>, the normal points to the side of the origin wherever the
  tangent does not vanish.
\<close>

lemma unit_normal_inward:
  assumes L: "0 < tangent_length theta R Zp e"
    and "0 \<le> R" "0 \<le> e" "1 \<le> Zp" and range: "e * Zp \<le> R \<or> R < e"
  shows "dot (unit_normal theta R Zp e) (base_point theta R Zp e) < 0"
proof -
  define d where "d = 1 - cos (Zp * theta - theta)"
  have d: "0 \<le> d" by (simp add: d_def)
  have eZ: "e \<le> e * Zp" using assms mult_left_mono [of 1 Zp e] by simp
  have k: "0 \<le> e * R * (Zp + 1) * d" using assms d by simp
  have "0 < (R - e) * (R - e * Zp) + e * R * (Zp + 1) * d"
  proof (cases "e * Zp = R")
    case True
    have "(tangent_length theta R Zp e)\<^sup>2 = 2 * (e * R * Zp * d)"
      unfolding tangent_length_sq using True by (simp add: d_def)
    moreover have "0 < (tangent_length theta R Zp e)\<^sup>2" using L by simp
    ultimately have "0 < 2 * (e * R * Zp * d)" by (simp only:)
    then have "0 < e * R * Zp * d" by linarith
    moreover have "0 \<le> e * R * d" using assms d by simp
    moreover have "e * R * (Zp + 1) * d = e * R * Zp * d + e * R * d"
      by (simp add: algebra_simps)
    ultimately show ?thesis using True by simp
  next
    case False
    with range eZ have "(e * Zp < R \<and> e < R) \<or> (R < e \<and> R < e * Zp)" by auto
    then have "0 < (R - e) * (R - e * Zp)"
      by (auto simp: zero_less_mult_iff)
    with k show ?thesis by simp
  qed
  then have "- ycoord (tangent theta R Zp e) * xcoord (base_point theta R Zp e)
     + xcoord (tangent theta R Zp e) * ycoord (base_point theta R Zp e) < 0"
    unfolding normal_numerator_factored d_def by simp
  with L show ?thesis unfolding unit_normal_dot by (simp add: divide_neg_pos)
qed

text \<open>
  With loops (\<open>R < e * Zp\<close>) the curve crosses the positive x axis at \<open>theta = 0\<close> running
  downward, and the normal there is \<open>(1, 0)\<close>: it points away from the origin.
\<close>

lemma looped_axis:
  assumes "R < e * Zp"
  shows "tangent_length 0 R Zp e = e * Zp - R"
    and "unit_normal 0 R Zp e = \<lparr>xcoord = 1, ycoord = 0\<rparr>"
    and "base_point 0 R Zp e = \<lparr>xcoord = R - e, ycoord = 0\<rparr>"
proof -
  show L: "tangent_length 0 R Zp e = e * Zp - R"
    using assms by (simp add: tangent_length_def norm_point_def tangent_def)
  show "unit_normal 0 R Zp e = \<lparr>xcoord = 1, ycoord = 0\<rparr>"
    unfolding unit_normal_def L using assms by (simp add: tangent_def)
  show "base_point 0 R Zp e = \<lparr>xcoord = R - e, ycoord = 0\<rparr>"
    by (simp add: base_point_def)
qed

text \<open>
  C3, as stated, fails in its last clause. The displacement is along the unit normal
  \<open>(- dy/dtheta, dx/dtheta) / L\<close> for all parameters, but on a looped curve that normal
  does not point toward the interior everywhere: at the valid parameters \<open>R = 40\<close>,
  \<open>Zp = 12\<close>, \<open>rp = 3\<close>, \<open>e = 4\<close> and \<open>theta = 0\<close> the tangent length is 8, the normal is
  \<open>(1, 0)\<close>, and the profile point \<open>(39, 0)\<close> lies farther from the origin than the base
  point \<open>(36, 0)\<close>.
\<close>

theorem getCycloidPoint_offset_counterexample:
  "(0::real) < 40 \<and> (2::int) \<le> 12 \<and> (0::real) \<le> 3 \<and> (0::real) \<le> 4 \<and>
   epsilon \<le> tangent_length 0 40 (real_of_int 12) 4 \<and>
   base_point 0 40 (real_of_int 12) 4 = \<lparr>xcoord = 36, ycoord = 0\<rparr> \<and>
   getCycloidPoint 0 40 (real_of_int 12) 3 4 = Some \<lparr>xcoord = 39, ycoord = 0\<rparr> \<and>
   unit_normal 0 40 (real_of_int 12) 4 = \<lparr>xcoord = 1, ycoord = 0\<rparr> \<and>
   \<not> dot (unit_normal 0 40 (real_of_int 12) 4) (base_point 0 40 (real_of_int 12) 4) < 0"
  by (simp add: getCycloidPoint_cases tangent_length_def tangent_def norm_point_def epsilon_def
      base_point_def unit_normal_def dot_def)

text \<open>
  C3, amended. When the tangent length \<open>L\<close> is at least the epsilon threshold, the profile
  point is the base epitrochoid point displaced by \<open>rp\<close> along
  \<open>(- dy/dtheta, dx/dtheta) / L\<close>, for all \<open>R\<close>, \<open>Zp\<close>, \<open>rp\<close> and \<open>e\<close>; that vector has length
  one and is orthogonal to the tangent, so the result is the offset of the base curve at
  distance \<open>rp\<close>. The offset is toward the interior, the side of the origin, when
  \<open>e * Zp \<le> R\<close> (no loops) or \<open>R < e\<close>, with \<open>R \<ge> 0\<close>, \<open>e \<ge> 0\<close> and \<open>Zp \<ge> 1\<close>. On a looped
  curve, \<open>e \<le> R < e * Zp\<close>, it is not: at \<open>theta = 0\<close> the point returned is
  \<open>(R - e + rp, 0)\<close>, the base point \<open>(R - e, 0)\<close> moved away from the origin.
\<close>

theorem getCycloidPoint_offset:
  assumes "epsilon \<le> tangent_length theta R Zp e"
  shows "getCycloidPoint theta R Zp rp e =
           Some \<lparr>xcoord = xcoord (base_point theta R Zp e)
                             + rp * xcoord (unit_normal theta R Zp e),
                 ycoord = ycoord (base_point theta R Zp e)
                             + rp * ycoord (unit_normal theta R Zp e)\<rparr>
         \<and> norm_point (unit_normal theta R Zp e) = 1
         \<and> dot (unit_normal theta R Zp e) (tangent theta R Zp e) = 0
         \<and> (0 \<le> R \<and> 0 \<le> e \<and> 1 \<le> Zp \<and> (e * Zp \<le> R \<or> R < e) \<longrightarrow>
              dot (unit_normal theta R Zp e) (base_point theta R Zp e) < 0)
         \<and> (theta = 0 \<and> e \<le> R \<and> R < e * Zp \<longrightarrow>
              getCycloidPoint theta R Zp rp e = Some \<lparr>xcoord = R - e + rp, ycoord = 0\<rparr>
              \<and> 0 \<le> dot (unit_normal theta R Zp e) (base_point theta R Zp e))"
proof -
  have "0 < epsilon" by (simp add: epsilon_def)
  with assms have pos: "0 < tangent_length theta R Zp e" by simp
  from assms have offset: "getCycloidPoint theta R Zp rp e =
           Some \<lparr>xcoord = xcoord (base_point theta R Zp e)
                             + rp * xcoord (unit_normal theta R Zp e),
                 ycoord = ycoord (base_point theta R Zp e)
                             + rp * ycoord (unit_normal theta R Zp e)\<rparr>"
    by (simp add: getCycloidPoint_cases unit_normal_def not_less)
  have looped: "getCycloidPoint theta R Zp rp e = Some \<lparr>xcoord = R - e + rp, ycoord = 0\<rparr>
      \<and> 0 \<le> dot (unit_normal theta R Zp e) (base_point theta R Zp e)"
    if "theta = 0" "e \<le> R" "R < e * Zp"
    using that offset by (simp add: looped_axis dot_def)
  from offset unit_normal_norm [OF pos] unit_normal_orthogonal
    unit_normal_inward [OF pos] looped
  show ?thesis by blast
qed

theorem getCycloidPoint_offset_witness:
  "epsilon \<le> tangent_length 0 80 12 4 \<and>
   (0::real) \<le> 80 \<and> (0::real) \<le> 4 \<and> (1::real) \<le> 12 \<and> (4::real) * 12 \<le> 80 \<and>
   getCycloidPoint 0 80 12 5 4 = Some \<lparr>xcoord = 71, ycoord = 0\<rparr> \<and>
   unit_normal 0 80 12 4 = \<lparr>xcoord = - 1, ycoord = 0\<rparr> \<and>
   dot (unit_normal 0 80 12 4) (base_point 0 80 12 4) < 0 \<and>
   epsilon \<le> tangent_length 0 40 12 4 \<and> (4::real) \<le> 40 \<and> (40::real) < 4 * 12 \<and>
   getCycloidPoint 0 40 12 3 4 = Some \<lparr>xcoord = 39, ycoord = 0\<rparr> \<and>
   0 \<le> dot (unit_normal 0 40 12 4) (base_point 0 40 12 4)"
  using getCycloidPoint_offset [of 0 80 12 4 5] getCycloidPoint_offset [of 0 40 12 4 3]
  by (simp add: tangent_length_def tangent_def norm_point_def epsilon_def base_point_def
      unit_normal_def dot_def)

text \<open>
  C8. \<open>getCycloidPoint\<close> returns a finite point for every \<open>theta\<close>, \<open>R\<close>, \<open>Zp\<close>, \<open>rp\<close> and \<open>e\<close>:
  no division by zero and no square root of a negative number is ever reached. When the
  tangent length is smaller than the epsilon threshold, the point returned is the
  unoffset base point.
\<close>

theorem getCycloidPoint_total:
  "(\<exists>p. getCycloidPoint theta R Zp rp e = Some p) \<and>
   (tangent_length theta R Zp e < epsilon \<longrightarrow>
      getCycloidPoint theta R Zp rp e = Some (base_point theta R Zp e))"
  by (simp add: getCycloidPoint_cases)

text \<open>
  At \<open>R = e * Zp\<close> the curve has a cusp at \<open>theta = 0\<close>: the tangent vanishes there.
\<close>

theorem getCycloidPoint_total_witness:
  "tangent_length 0 12 12 1 < epsilon \<and>
   getCycloidPoint 0 12 12 5 1 = Some \<lparr>xcoord = 11, ycoord = 0\<rparr>"
  using getCycloidPoint_total [of 0 12 12 5 1]
  by (simp add: tangent_length_def tangent_def norm_point_def epsilon_def base_point_def)

lemma cos_int_period: "cos (real_of_int n * (theta + 2 * pi)) = cos (real_of_int n * theta)"
proof -
  have "real_of_int n * (theta + 2 * pi) = real_of_int n * theta + 2 * pi * real_of_int n"
    by (simp add: algebra_simps)
  then show ?thesis
    by (simp add: cos_add)
qed

lemma sin_int_period: "sin (real_of_int n * (theta + 2 * pi)) = sin (real_of_int n * theta)"
proof -
  have "real_of_int n * (theta + 2 * pi) = real_of_int n * theta + 2 * pi * real_of_int n"
    by (simp add: algebra_simps)
  then show ?thesis
    by (simp add: sin_add)
qed

lemma base_point_periodic:
  "base_point (theta + 2 * pi) R (real_of_int n) e = base_point theta R (real_of_int n) e"
  unfolding base_point_def cos_int_period sin_int_period by simp

lemma tangent_periodic:
  "tangent (theta + 2 * pi) R (real_of_int n) e = tangent theta R (real_of_int n) e"
  unfolding tangent_def cos_int_period sin_int_period by simp

text \<open>
  C9. For an integral \<open>Zp\<close> the profile point is periodic in \<open>theta\<close> with period \<open>2 * pi\<close>,
  for every \<open>R\<close>, \<open>rp\<close> and \<open>e\<close>. The equality is one of real numbers.
\<close>

theorem getCycloidPoint_periodic:
  "getCycloidPoint (theta + 2 * pi) R (real_of_int n) rp e
     = getCycloidPoint theta R (real_of_int n) rp e"
  unfolding getCycloidPoint_cases tangent_length_def tangent_periodic base_point_periodic ..

text \<open>
  C10. With pin radius \<open>rp = 0\<close> the profile point is the base epitrochoid point, for every
  \<open>theta\<close>, \<open>R\<close>, \<open>Zp\<close> and \<open>e\<close>: on the offset branch the offset term is zero, and the
  degenerate branch returns the base point already.
\<close>

theorem getCycloidPoint_rp_zero:
  "getCycloidPoint theta R Zp 0 e = Some (base_point theta R Zp e)"
  by (simp add: getCycloidPoint_cases base_point_def)

subsection \<open>The circle at eccentricity zero\<close>

lemma tangent_length_circle: "tangent_length theta R Zp 0 = \<bar>R\<bar>"
proof -
  have "(R * sin theta)\<^sup>2 + (R * cos theta)\<^sup>2 = R\<^sup>2 * ((sin theta)\<^sup>2 + (cos theta)\<^sup>2)"
    by (simp only: power_mult_distrib distrib_left)
  also have "\<dots> = R\<^sup>2" by simp
  finally show ?thesis
    by (simp add: tangent_length_def tangent_def norm_point_def)
qed

text \<open>
  C6, as stated, fails. For \<open>e = 0\<close> the tangent length is \<open>R\<close>, and a positive \<open>R\<close> below the
  epsilon threshold sends \<open>getCycloidPoint\<close> into its fallback, which returns the point of
  the circle of radius \<open>R\<close>, not \<open>R - rp\<close>: at \<open>R = 1e-7\<close>, \<open>Zp = 2\<close>, \<open>rp = 1\<close> and \<open>theta = 0\<close>
  the result is not \<open>((R - rp) * cos theta, (R - rp) * sin theta)\<close>.
\<close>

theorem getCycloidPoint_circle_counterexample:
  "(0::real) < 1 / 10000000 \<and> (2::int) \<le> 2 \<and> (0::real) \<le> 1 \<and>
   getCycloidPoint 0 (1 / 10000000) (real_of_int 2) 1 0
     \<noteq> Some \<lparr>xcoord = (1 / 10000000 - 1) * cos 0, ycoord = (1 / 10000000 - 1) * sin 0\<rparr>"
  by (simp add: getCycloidPoint_cases tangent_length_circle epsilon_def base_point_def)

text \<open>
  C6, amended. For \<open>e = 0\<close> and every \<open>R\<close> of at least the epsilon threshold \<open>1e-6\<close>, the profile
  is the circle of radius \<open>R - rp\<close> around the origin, for every \<open>theta\<close>, independent of
  \<open>Zp\<close>: the normal points inward. For \<open>0 \<le> R < 1e-6\<close> the fallback returns the point of the
  circle of radius \<open>R\<close>.
\<close>

theorem getCycloidPoint_circle:
  "(epsilon \<le> R \<longrightarrow>
      getCycloidPoint theta R Zp rp 0
        = Some \<lparr>xcoord = (R - rp) * cos theta, ycoord = (R - rp) * sin theta\<rparr>) \<and>
   (0 \<le> R \<and> R < epsilon \<longrightarrow>
      getCycloidPoint theta R Zp rp 0
        = Some \<lparr>xcoord = R * cos theta, ycoord = R * sin theta\<rparr>)"
proof -
  have pos: "0 < epsilon" by (simp add: epsilon_def)
  show ?thesis
    using pos
    by (auto simp: getCycloidPoint_cases tangent_length_circle base_point_def tangent_def
        algebra_simps)
qed

theorem getCycloidPoint_circle_witness:
  "epsilon \<le> 80 \<and> getCycloidPoint 0 80 12 5 0 = Some \<lparr>xcoord = 75, ycoord = 0\<rparr> \<and>
   0 \<le> (1 / 10000000 :: real) \<and> 1 / 10000000 < epsilon \<and>
   getCycloidPoint 0 (1 / 10000000) 2 1 0 = Some \<lparr>xcoord = 1 / 10000000, ycoord = 0\<rparr>"
  using getCycloidPoint_circle [of 80 0 12 5] getCycloidPoint_circle [of "1 / 10000000" 0 2 1]
  by (simp add: epsilon_def)

section \<open>Properties of the kinematics logic\<close>

text \<open>
  C1. In mode FixedPins (\<open>'STD'\<close>), for every input angle and every pin count \<open>Zp\<close> of
  at least 2, the pin group angle is 0, the disc centre is
  \<open>(e * cos inputAngle, e * sin inputAngle)\<close> and the disc rotation is
  \<open>- inputAngle / (Zp - 1)\<close>. The other conditions of validity are not needed.
\<close>

theorem draw_placement_STD:
  assumes "kinematics s = STD" and "2 \<le> par_Zp (params s)"
  shows "draw_placement s =
           Some \<lparr>pinGroupAngle = 0,
                 discCenter = \<lparr>xcoord = par_e (params s) * cos (rotationAngle s),
                                ycoord = par_e (params s) * sin (rotationAngle s)\<rparr>,
                 discRotation = - rotationAngle s / (real_of_int (par_Zp (params s)) - 1)\<rparr>"
  using assms by (simp add: draw_placement_def num_div_def Let_def)

theorem draw_placement_STD_witness:
  "kinematics (initial_state\<lparr>rotationAngle := pi\<rparr>) = STD \<and>
   2 \<le> par_Zp (params (initial_state\<lparr>rotationAngle := pi\<rparr>)) \<and>
   draw_placement (initial_state\<lparr>rotationAngle := pi\<rparr>) =
     Some \<lparr>pinGroupAngle = 0, discCenter = \<lparr>xcoord = - 4, ycoord = 0\<rparr>,
           discRotation = - pi / 11\<rparr>"
  using draw_placement_STD [of "initial_state\<lparr>rotationAngle := pi\<rparr>"]
  by (simp add: initial_state_def)

text \<open>
  C2. In mode FixedCycloid (\<open>'RV'\<close>), for every input angle and every pin count \<open>Zp\<close> of at
  least 2, the disc centre is \<open>(e * cos inputAngle, e * sin inputAngle)\<close>, the disc rotation
  is 0 and the pin group angle is \<open>inputAngle / Zp\<close>, which has the sign of the input
  angle: the same rotational sense.
\<close>

theorem draw_placement_RV:
  assumes "kinematics s = RV" and "2 \<le> par_Zp (params s)"
  shows "draw_placement s =
           Some \<lparr>pinGroupAngle = rotationAngle s / real_of_int (par_Zp (params s)),
                 discCenter = \<lparr>xcoord = par_e (params s) * cos (rotationAngle s),
                                ycoord = par_e (params s) * sin (rotationAngle s)\<rparr>,
                 discRotation = 0\<rparr>
         \<and> sgn (rotationAngle s / real_of_int (par_Zp (params s))) = sgn (rotationAngle s)"
  using assms by (simp add: draw_placement_def num_div_def Let_def)

theorem draw_placement_RV_witness:
  "kinematics (initial_state\<lparr>kinematics := RV, rotationAngle := pi\<rparr>) = RV \<and>
   2 \<le> par_Zp (params (initial_state\<lparr>kinematics := RV, rotationAngle := pi\<rparr>)) \<and>
   draw_placement (initial_state\<lparr>kinematics := RV, rotationAngle := pi\<rparr>) =
     Some \<lparr>pinGroupAngle = pi / 12, discCenter = \<lparr>xcoord = - 4, ycoord = 0\<rparr>,
           discRotation = 0\<rparr>"
  using draw_placement_RV [of "initial_state\<lparr>kinematics := RV, rotationAngle := pi\<rparr>"]
  by (simp add: initial_state_def)

lemma norm_point_orbit:
  assumes "0 \<le> e"
  shows "norm_point \<lparr>xcoord = e * cos a, ycoord = e * sin a\<rparr> = e"
proof -
  have "(e * cos a)\<^sup>2 + (e * sin a)\<^sup>2 = e\<^sup>2 * ((cos a)\<^sup>2 + (sin a)\<^sup>2)"
    by (simp only: power_mult_distrib distrib_left)
  also have "\<dots> = e\<^sup>2" by simp
  finally show ?thesis using assms by (simp add: norm_point_def)
qed

text \<open>
  C7. For every input angle, every eccentricity \<open>e \<ge> 0\<close> and every pin count \<open>Zp\<close> of at
  least 2, both modes place the disc centre at the same point, and that point is at
  distance \<open>e\<close> from the origin. The two modes are the same state but for \<open>kinematics\<close>;
  the placement has no other component than the disc centre, the disc rotation and the
  pin group angle.
\<close>

theorem draw_placement_discCenter:
  assumes "0 \<le> par_e (params s)" and "2 \<le> par_Zp (params s)"
  shows "\<exists>p q. draw_placement (s\<lparr>kinematics := STD\<rparr>) = Some p \<and>
               draw_placement (s\<lparr>kinematics := RV\<rparr>) = Some q \<and>
               discCenter p = discCenter q \<and>
               norm_point (discCenter p) = par_e (params s) \<and>
               norm_point (discCenter q) = par_e (params s)"
  using assms by (simp add: draw_placement_def num_div_def Let_def norm_point_orbit)

theorem draw_placement_discCenter_witness:
  "0 \<le> par_e (params (initial_state\<lparr>rotationAngle := pi\<rparr>)) \<and>
   2 \<le> par_Zp (params (initial_state\<lparr>rotationAngle := pi\<rparr>)) \<and>
   (\<exists>p q. draw_placement (initial_state\<lparr>rotationAngle := pi, kinematics := STD\<rparr>) = Some p \<and>
          draw_placement (initial_state\<lparr>rotationAngle := pi, kinematics := RV\<rparr>) = Some q \<and>
          discCenter p = \<lparr>xcoord = - 4, ycoord = 0\<rparr> \<and>
          discCenter q = \<lparr>xcoord = - 4, ycoord = 0\<rparr> \<and>
          norm_point (discCenter p) = 4 \<and> norm_point (discCenter q) = 4)"
  using draw_placement_discCenter [of "initial_state\<lparr>rotationAngle := pi\<rparr>"]
  by (simp add: initial_state_def draw_placement_def num_div_def)

section \<open>Properties of the derived quantities\<close>

text \<open>
  With \<open>R\<close> and \<open>Zp\<close> different from zero, both divisions of \<open>updateParams\<close> are finite and
  the displays are these.
\<close>

lemma updateParams_finite:
  assumes "par_R inp \<noteq> 0" and "par_Zp inp \<noteq> 0"
  shows "updateParams inp s =
    Some (\<lparr>ratio = (if kinematics s = STD then ''1 : '' @ Number_toString (par_Zp inp - 1)
                      else ''1 : '' @ Number_toString (par_Zp inp)),
           dir = (if kinematics s = STD then Opposite else Same),
           k1 = par_e inp * real_of_int (par_Zp inp) / par_R inp,
           warn = (par_rp inp > par_R inp / real_of_int (par_Zp inp) * 1.1
                   \<or> par_e inp * real_of_int (par_Zp inp) / par_R inp > 0.98)\<rparr>,
          s\<lparr>params := inp\<rparr>)"
proof -
  have nz: "real_of_int (par_Zp inp) \<noteq> 0" using assms by simp
  have sel: "params (s\<lparr>params := inp\<rparr>) = inp"
    "kinematics (s\<lparr>params := inp\<rparr>) = kinematics s"
    by simp_all
  show ?thesis
    unfolding updateParams_def Let_def num_div_def
    by (simp only: sel if_not_P [OF nz] if_not_P [OF assms(1)] Option.bind.simps)
qed

text \<open>
  C4. For \<open>R\<close> and \<open>Zp\<close> different from zero (valid parameters have \<open>R > 0\<close> and \<open>Zp \<ge> 2\<close>),
  the eccentricity factor is \<open>e * Zp / R\<close> and the undercut warning is shown if and only if
  \<open>rp > 1.1 * (R / Zp)\<close> or the eccentricity factor exceeds 0.98. The witness evaluates the
  two examples: \<open>R = 80\<close>, \<open>Zp = 12\<close>, \<open>rp = 5\<close>, \<open>e = 4\<close> gives the factor 0.6 and no warning;
  \<open>e = 20\<close> gives the factor 3 and the warning.
\<close>

theorem updateParams_warning:
  assumes "par_R inp \<noteq> 0" and "par_Zp inp \<noteq> 0"
  shows "\<exists>d s'. updateParams inp s = Some (d, s') \<and>
           k1 d = par_e inp * real_of_int (par_Zp inp) / par_R inp \<and>
           (warn d \<longleftrightarrow> par_rp inp > 1.1 * (par_R inp / real_of_int (par_Zp inp))
                        \<or> par_e inp * real_of_int (par_Zp inp) / par_R inp > 0.98)"
  unfolding updateParams_finite [OF assms] by (simp add: mult.commute)

theorem updateParams_warning_witness:
  "(\<exists>d s'. updateParams \<lparr>par_R = 80, par_Zp = 12, par_rp = 5, par_e = 4\<rparr> initial_state
              = Some (d, s')
       \<and> k1 d = 0.6 \<and> \<not> warn d) \<and>
   (\<exists>d s'. updateParams \<lparr>par_R = 80, par_Zp = 12, par_rp = 5, par_e = 20\<rparr> initial_state
              = Some (d, s')
       \<and> k1 d = 3 \<and> warn d)"
  using updateParams_warning [of "\<lparr>par_R = 80, par_Zp = 12, par_rp = 5, par_e = 4\<rparr>"
            initial_state]
        updateParams_warning [of "\<lparr>par_R = 80, par_Zp = 12, par_rp = 5, par_e = 20\<rparr>"
            initial_state]
  by simp

text \<open>
  C5. For \<open>R\<close> and \<open>Zp\<close> different from zero, the ratio display is \<open>1 : Zp - 1\<close> with the
  direction label Opposite in mode FixedPins, and \<open>1 : Zp\<close> with the label Same in mode
  FixedCycloid. The displays depend on the parameters read and on the mode only: the
  input angle and the parameters stored before do not change them. The witness sets each
  mode with \<open>Zp = 12\<close>: the ratio texts are \<open>1 : 11\<close> and \<open>1 : 12\<close>.
\<close>

theorem updateParams_ratio:
  assumes "par_R inp \<noteq> 0" and "par_Zp inp \<noteq> 0"
  shows "(\<exists>d s'. updateParams inp s = Some (d, s') \<and>
           (kinematics s = STD \<longrightarrow>
              ratio d = ''1 : '' @ Number_toString (par_Zp inp - 1) \<and> dir d = Opposite) \<and>
           (kinematics s = RV \<longrightarrow>
              ratio d = ''1 : '' @ Number_toString (par_Zp inp) \<and> dir d = Same)) \<and>
         map_option fst (updateParams inp (s\<lparr>rotationAngle := a, params := p\<rparr>))
           = map_option fst (updateParams inp s)"
  unfolding updateParams_finite [OF assms] by simp

theorem updateParams_ratio_witness:
  "(\<exists>d s'. setMode STD \<lparr>par_R = 80, par_Zp = 12, par_rp = 5, par_e = 4\<rparr> initial_state
              = Some (d, s')
       \<and> ratio d = ''1 : 11'' \<and> dir d = Opposite) \<and>
   (\<exists>d s'. setMode RV \<lparr>par_R = 80, par_Zp = 12, par_rp = 5, par_e = 4\<rparr> initial_state
              = Some (d, s')
       \<and> ratio d = ''1 : 12'' \<and> dir d = Same)"
  using updateParams_ratio [of "\<lparr>par_R = 80, par_Zp = 12, par_rp = 5, par_e = 4\<rparr>"
            "initial_state\<lparr>kinematics := STD\<rparr>"]
        updateParams_ratio [of "\<lparr>par_R = 80, par_Zp = 12, par_rp = 5, par_e = 4\<rparr>"
            "initial_state\<lparr>kinematics := RV\<rparr>"]
  by (simp add: setMode_def Number_toString_def digits.simps digit_char_def)

end
